theory Spec2Isabelle
  imports Complex_Main "HOL-Library.AList" "HOL-Library.Multiset"
begin

section \<open>Python values, exceptions and control outcomes\<close>

text \<open>
  The monitor is one Python module, \<^verbatim>\<open>monitor_ssm_request.py\<close>. Its functions are
  embedded as HOL functions. What a Python function does besides returning a value is
  made explicit: the lines it prints and the calls it makes to its collaborators are a
  list of events, and the three ways a call can end (returning, \<^verbatim>\<open>sys.exit\<close>, a raised
  exception) are the three constructors of \<open>outcome\<close>.
\<close>

text \<open>
  The exception classes the module can meet. \<open>ClientError\<close> and \<open>OtherError\<close> carry
  the text \<^verbatim>\<open>str(e)\<close> of the exception; \<open>OtherError\<close> stands for every class that
  none of the module's \<^verbatim>\<open>except\<close> clauses names.
\<close>

datatype pyexn =
    JSONDecodeError
  | KeyError
  | TypeError
  | ValueError
  | OverflowError
  | ClientError string
  | OtherError string

datatype 'a outcome = Return 'a | Exit int | Raise pyexn

section \<open>The status summarizer\<close>

text \<open>
  An invocation record is a dictionary of the service's reply; the module reads its
  \<^verbatim>\<open>Status\<close> entry only, with \<^verbatim>\<open>invocation.get("Status")\<close>, which is \<^verbatim>\<open>None\<close>
  when the entry is absent. The service declares the entry a string.
\<close>

record invocation =
  Status :: "string option"

text \<open>
  The summary is a Python dictionary from category names to counts. It is modelled as an
  association list in insertion order; counts are Python integers.
\<close>

type_synonym summary = "(string \<times> int) list"

definition contains :: "summary \<Rightarrow> string \<Rightarrow> bool" where
  \<comment> \<open>\<^verbatim>\<open>key in summary\<close>\<close>
  "contains d key = (key \<in> set (map fst d))"

definition getitem :: "summary \<Rightarrow> string \<Rightarrow> pyexn + int" where
  \<comment> \<open>\<^verbatim>\<open>summary[key]\<close>: a missing key raises \<^verbatim>\<open>KeyError\<close>\<close>
  "getitem d key = (case map_of d key of None \<Rightarrow> Inl KeyError | Some v \<Rightarrow> Inr v)"

definition setitem :: "summary \<Rightarrow> string \<Rightarrow> int \<Rightarrow> summary" where
  \<comment> \<open>\<^verbatim>\<open>summary[key] = v\<close>: an existing key keeps its place, a new one goes last\<close>
  "setitem d key v = AList.update key v d"

definition increment :: "summary \<Rightarrow> string \<Rightarrow> pyexn + summary" where
  \<comment> \<open>\<^verbatim>\<open>summary[key] += 1\<close>\<close>
  "increment d key =
     (case getitem d key of Inl e \<Rightarrow> Inl e | Inr v \<Rightarrow> Inr (setitem d key (v + 1)))"

definition initial_summary :: summary where
  "initial_summary =
     [(''Success'', 0), (''Failed'', 0), (''InProgress'', 0), (''Cancelled'', 0),
      (''TimedOut'', 0), (''Cancelling'', 0), (''Received'', 0), (''Other'', 0)]"

text \<open>
  The body of the \<^verbatim>\<open>for\<close> loop, then the loop over the records in order. The status
  \<^verbatim>\<open>None\<close> is no key of the summary, so \<^verbatim>\<open>status in summary\<close> is false for it. An
  exception in the body ends the loop.
\<close>

definition count_invocation :: "invocation \<Rightarrow> summary \<Rightarrow> pyexn + summary" where
  "count_invocation invocation d =
     (case Status invocation of
        None \<Rightarrow> increment d ''Other''
      | Some status \<Rightarrow>
          if contains d status then increment d status else increment d ''Other'')"

fun summarize_loop :: "invocation list \<Rightarrow> summary \<Rightarrow> pyexn + summary" where
  "summarize_loop [] d = Inr d"
| "summarize_loop (invocation # rest) d =
     (case count_invocation invocation d of
        Inl e \<Rightarrow> Inl e
      | Inr d' \<Rightarrow> summarize_loop rest d')"

definition summarize_status :: "invocation list \<Rightarrow> pyexn + summary" where
  "summarize_status invocations = summarize_loop invocations initial_summary"

definition total_instances :: "summary \<Rightarrow> int" where
  \<comment> \<open>\<^verbatim>\<open>sum(summary.values())\<close>, as \<^verbatim>\<open>print_summary\<close> computes the total\<close>
  "total_instances d = sum_list (map snd d)"

subsection \<open>The summarizer on an explicit store\<close>

text \<open>
  In Python the summary is a dictionary object: \<^verbatim>\<open>summarize_status\<close> creates it,
  updates it in place in the loop and returns a reference to it. To speak about side
  effects and hidden state, the same function is given over a store of dictionary
  objects, where a reference is the index of the object and creating an object appends
  it. References come from \<open>allocate\<close> only, so they are always in range.
\<close>

type_synonym store = "summary list"

definition allocate :: "summary \<Rightarrow> store \<Rightarrow> nat \<times> store" where
  "allocate d h = (length h, h @ [d])"

fun summarize_loop_at :: "nat \<Rightarrow> invocation list \<Rightarrow> store \<Rightarrow> pyexn option \<times> store" where
  "summarize_loop_at ref [] h = (None, h)"
| "summarize_loop_at ref (invocation # rest) h =
     (case count_invocation invocation (h ! ref) of
        Inl e \<Rightarrow> (Some e, h)
      | Inr d' \<Rightarrow> summarize_loop_at ref rest (h[ref := d']))"

definition summarize_status_at :: "invocation list \<Rightarrow> store \<Rightarrow> (pyexn + nat) \<times> store" where
  "summarize_status_at invocations h =
     (case allocate initial_summary h of
        (ref, h0) \<Rightarrow>
          (case summarize_loop_at ref invocations h0 of
             (Some e, h') \<Rightarrow> (Inl e, h')
           | (None, h') \<Rightarrow> (Inr ref, h')))"

section \<open>Events and sequencing\<close>

text \<open>
  What the process does to the outside, in order: a line printed to standard output or
  to the error stream, the traceback the interpreter writes to the error stream for an
  exception nobody caught (it ends with the class and the text of the exception), the
  creation of the session and of the client, one call of the client's
  \<^verbatim>\<open>list_command_invocations(CommandId=..., Details=...)\<close>, and one completed
  \<^verbatim>\<open>time.sleep\<close>.
\<close>

datatype pyval =
    PyNone
  | PyBool bool
  | PyInt int
  | PyFloat real
  | PyStr string
  | PyList "pyval list"
  | PyDict "(string \<times> pyval) list"

datatype event =
    Stdout string
  | Stderr string
  | Traceback pyexn
  | OpenSession "string option"
  | OpenClient "string option"
  | ListCommandInvocations pyval bool
  | Sleep int

type_synonym 'a io = "event list \<times> 'a outcome"

definition bind_io :: "'a io \<Rightarrow> ('a \<Rightarrow> 'b io) \<Rightarrow> 'b io" where
  \<comment> \<open>one statement after another: the second runs only if the first returns\<close>
  "bind_io m f =
     (case m of
        (es, Return x) \<Rightarrow> (case f x of (es', r) \<Rightarrow> (es @ es', r))
      | (es, Exit c) \<Rightarrow> (es, Exit c)
      | (es, Raise e) \<Rightarrow> (es, Raise e))"

fun sequence :: "unit io list \<Rightarrow> unit io" where
  "sequence [] = ([], Return ())"
| "sequence (m # rest) = bind_io m (\<lambda>_. sequence rest)"

definition lift :: "pyexn + 'a \<Rightarrow> 'a io" where
  \<comment> \<open>an expression that prints nothing: its value, or the exception it raises\<close>
  "lift v = (case v of Inl e \<Rightarrow> ([], Raise e) | Inr x \<Rightarrow> ([], Return x))"

definition print_line :: "string \<Rightarrow> unit io" where
  "print_line text = ([Stdout text], Return ())"

text \<open>Decimal text of a Python integer, as an f-string formats it.\<close>

fun str_nat :: "nat \<Rightarrow> string" where
  "str_nat n =
     (if n < 10 then [''0123456789'' ! n]
      else str_nat (n div 10) @ [''0123456789'' ! (n mod 10)])"

definition str_int :: "int \<Rightarrow> string" where
  "str_int i = (if i < 0 then CHR ''-'' # str_nat (nat (- i)) else str_nat (nat i))"

section \<open>The input parser\<close>

text \<open>
  \<^verbatim>\<open>json.loads\<close> belongs to the standard library: it is a parameter, a function from
  the text to the parsed value or to the exception it raises. A parsed JSON object is a
  dictionary with string keys, given as an association list.
\<close>

fun truthy :: "pyval \<Rightarrow> bool" where
  "truthy PyNone = False"
| "truthy (PyBool b) = b"
| "truthy (PyInt i) = (i \<noteq> 0)"
| "truthy (PyFloat x) = (x \<noteq> 0)"
| "truthy (PyStr s) = (s \<noteq> [])"
| "truthy (PyList xs) = (xs \<noteq> [])"
| "truthy (PyDict d) = (d \<noteq> [])"

text \<open>
  \<^verbatim>\<open>value[key]\<close> with a string key: a dictionary looks the key up and raises
  \<^verbatim>\<open>KeyError\<close> when it is missing; a list and a string take integer indices only and
  raise \<^verbatim>\<open>TypeError\<close>; the other values cannot be subscripted and raise
  \<^verbatim>\<open>TypeError\<close>.
\<close>

fun subscript :: "pyval \<Rightarrow> string \<Rightarrow> pyexn + pyval" where
  "subscript (PyDict d) key = (case map_of d key of None \<Rightarrow> Inl KeyError | Some v \<Rightarrow> Inr v)"
| "subscript (PyList xs) key = Inl TypeError"
| "subscript (PyStr s) key = Inl TypeError"
| "subscript PyNone key = Inl TypeError"
| "subscript (PyBool b) key = Inl TypeError"
| "subscript (PyInt i) key = Inl TypeError"
| "subscript (PyFloat x) key = Inl TypeError"

definition invalid_input :: "pyexn \<Rightarrow> pyval io" where
  \<comment> \<open>\<^verbatim>\<open>except (json.JSONDecodeError, KeyError)\<close>; any other exception passes through\<close>
  "invalid_input e =
     (case e of
        JSONDecodeError \<Rightarrow>
          ([Stderr ''Error: Invalid input JSON. Ensure it contains 'Command.CommandId'.''], Exit 1)
      | KeyError \<Rightarrow>
          ([Stderr ''Error: Invalid input JSON. Ensure it contains 'Command.CommandId'.''], Exit 1)
      | _ \<Rightarrow> ([], Raise e))"

definition extract_command_id :: "(string \<Rightarrow> pyexn + pyval) \<Rightarrow> string \<Rightarrow> pyval io" where
  "extract_command_id json_loads input_json =
     (case json_loads input_json of
        Inl e \<Rightarrow> invalid_input e
      | Inr data \<Rightarrow>
          (case subscript data ''Command'' of
             Inl e \<Rightarrow> invalid_input e
           | Inr command \<Rightarrow>
               (case subscript command ''CommandId'' of
                  Inl e \<Rightarrow> invalid_input e
                | Inr command_id \<Rightarrow>
                    if \<not> truthy command_id then invalid_input KeyError
                    else ([], Return command_id))))"

section \<open>The invocation fetcher\<close>

text \<open>
  The reply of the service is a dictionary; the module reads its
  \<^verbatim>\<open>CommandInvocations\<close> entry with \<^verbatim>\<open>response.get("CommandInvocations", [])\<close>. The
  client's method is a parameter: given the command id and the \<^verbatim>\<open>Details\<close> flag it
  gives the reply or the exception it raises.
\<close>

record response =
  CommandInvocations :: "invocation list option"

definition fetch_command_invocations ::
  "(pyval \<Rightarrow> bool \<Rightarrow> pyexn + response) \<Rightarrow> pyval \<Rightarrow> invocation list io" where
  "fetch_command_invocations list_command_invocations command_id =
     (case list_command_invocations command_id True of
        Inr response \<Rightarrow>
          ([ListCommandInvocations command_id True],
           Return (case CommandInvocations response of None \<Rightarrow> [] | Some invs \<Rightarrow> invs))
      | Inl (ClientError detail) \<Rightarrow>
          ([ListCommandInvocations command_id True,
            Stderr (''Error fetching command invocations: '' @ detail)], Exit 1)
      | Inl e \<Rightarrow> ([ListCommandInvocations command_id True], Raise e))"

section \<open>The reporter and the polling loop\<close>

definition print_count :: "string \<Rightarrow> summary \<Rightarrow> string \<Rightarrow> unit io" where
  \<comment> \<open>\<^verbatim>\<open>print(f"<label>{summary['<key>']}")\<close>\<close>
  "print_count label d key =
     bind_io (lift (getitem d key)) (\<lambda>v. print_line (label @ str_int v))"

definition print_summary :: "summary \<Rightarrow> unit io" where
  "print_summary d =
     sequence
       [print_line ''Status Summary:'',
        print_line (''  Total Instances:    '' @ str_int (total_instances d)),
        print_count ''  Success:            '' d ''Success'',
        print_count ''  Failed:             '' d ''Failed'',
        print_count ''  In Progress:        '' d ''InProgress'',
        print_count ''  Cancelled:          '' d ''Cancelled'',
        print_count ''  Timed Out:          '' d ''TimedOut'',
        print_count ''  Cancelling:         '' d ''Cancelling'',
        print_count ''  Received:           '' d ''Received'',
        print_count ''  Other:              '' d ''Other'',
        print_line ''----------------------------------------'']"

text \<open>
  The environment of one run: the command line as \<^verbatim>\<open>argparse\<close> read it (the value of
  each option that was given), the text on standard input, the library functions, and
  the service, whose reply may differ from one call to the next (the calls are numbered
  from 0). \<open>sleep_max\<close> is the longest duration \<^verbatim>\<open>time.sleep\<close> accepts on the
  platform.
\<close>

record env =
  argv_interval :: "int option"
  argv_profile :: "string option"
  argv_region :: "string option"
  stdin_text :: string
  json_loads :: "string \<Rightarrow> pyexn + pyval"
  py_str :: "pyval \<Rightarrow> string"
  new_session :: "string option \<Rightarrow> pyexn + string option"
  new_client :: "string option \<Rightarrow> pyexn option"
  list_command_invocations :: "nat \<Rightarrow> pyval \<Rightarrow> bool \<Rightarrow> pyexn + response"
  sleep_max :: int

record args =
  interval :: int
  profile :: "string option"
  region :: "string option"

definition parse_arguments :: "env \<Rightarrow> args" where
  "parse_arguments e =
     \<lparr>interval = (case argv_interval e of None \<Rightarrow> 15 | Some i \<Rightarrow> i),
      profile = argv_profile e,
      region = argv_region e\<rparr>"

definition time_sleep :: "env \<Rightarrow> int \<Rightarrow> unit io" where
  \<comment> \<open>\<^verbatim>\<open>time.sleep(secs)\<close> raises for a negative and for a too large duration\<close>
  "time_sleep e secs =
     (if secs < 0 then ([], Raise ValueError)
      else if sleep_max e < secs then ([], Raise OverflowError)
      else ([Sleep secs], Return ()))"

definition all_finished :: "summary \<Rightarrow> pyexn + bool" where
  \<comment> \<open>the condition of the \<^verbatim>\<open>if\<close> in the loop; \<^verbatim>\<open>and\<close> stops at the first false operand\<close>
  "all_finished d =
     (case getitem d ''InProgress'' of
        Inl e \<Rightarrow> Inl e
      | Inr in_progress \<Rightarrow>
          if in_progress \<noteq> 0 then Inr False
          else (case getitem d ''Cancelling'' of
                  Inl e \<Rightarrow> Inl e
                | Inr cancelling \<Rightarrow>
                    if cancelling \<noteq> 0 then Inr False
                    else (case getitem d ''Received'' of
                            Inl e \<Rightarrow> Inl e
                          | Inr received \<Rightarrow> Inr (received = 0))))"

text \<open>
  One pass through the body of the \<^verbatim>\<open>while\<close> loop, the \<open>n\<close>-th of the run. When it
  returns, its value is the value of \<^verbatim>\<open>all_completed\<close> at the end of the pass.
\<close>

definition poll_once :: "env \<Rightarrow> args \<Rightarrow> pyval \<Rightarrow> nat \<Rightarrow> bool io" where
  "poll_once e a command_id n =
     bind_io (fetch_command_invocations (list_command_invocations e n) command_id)
       (\<lambda>invocations.
     bind_io (lift (summarize_status invocations)) (\<lambda>summary.
     bind_io (print_summary summary) (\<lambda>_.
     bind_io (lift (all_finished summary)) (\<lambda>finished.
       if finished
       then bind_io (lift (getitem summary ''Failed'')) (\<lambda>failed.
              if failed > 0
              then ([Stdout ''Some invocations failed.''], Exit 1)
              else ([Stdout ''All invocations succeeded.''], Exit 0))
       else bind_io (time_sleep e (interval a)) (\<lambda>_. ([], Return False))))))"

text \<open>
  The loop. It may run forever, so its result is optional: \<open>None\<close> is a run that never
  ends. \<open>trace\<close> holds the events so far.
\<close>

partial_function (option) poll_loop ::
  "env \<Rightarrow> args \<Rightarrow> pyval \<Rightarrow> bool \<Rightarrow> nat \<Rightarrow> event list \<Rightarrow> (unit io) option" where
  "poll_loop e a command_id all_completed n trace =
     (if all_completed then Some (trace, Return ())
      else (case poll_once e a command_id n of
              (es, Return all_completed') \<Rightarrow>
                poll_loop e a command_id all_completed' (Suc n) (trace @ es)
            | (es, Exit c) \<Rightarrow> Some (trace @ es, Exit c)
            | (es, Raise x) \<Rightarrow> Some (trace @ es, Raise x)))"

definition format_value :: "env \<Rightarrow> pyval \<Rightarrow> string" where
  \<comment> \<open>\<^verbatim>\<open>f"{value}"\<close>: a string as it is, any other value as \<^verbatim>\<open>str\<close> gives it\<close>
  "format_value e v = (case v of PyStr s \<Rightarrow> s | _ \<Rightarrow> py_str e v)"

definition open_client :: "env \<Rightarrow> args \<Rightarrow> unit io" where
  \<comment> \<open>the session, the region and the client; an empty profile or region counts as none\<close>
  "open_client e a =
     (let profile_name =
            (case profile a of None \<Rightarrow> None | Some p \<Rightarrow> if p = [] then None else Some p)
      in case new_session e profile_name of
           Inl x \<Rightarrow> ([OpenSession profile_name], Raise x)
         | Inr session_region \<Rightarrow>
             (let region_name =
                    (case region a of
                       None \<Rightarrow> session_region
                     | Some r \<Rightarrow> if r = [] then session_region else Some r)
              in case new_client e region_name of
                   Some x \<Rightarrow> ([OpenSession profile_name, OpenClient region_name], Raise x)
                 | None \<Rightarrow> ([OpenSession profile_name, OpenClient region_name], Return ())))"

definition startup :: "env \<Rightarrow> (args \<times> pyval) io" where
  \<comment> \<open>\<^verbatim>\<open>main\<close> up to the loop\<close>
  "startup e =
     (let a = parse_arguments e;
          input_json = stdin_text e
      in bind_io (extract_command_id (json_loads e) input_json) (\<lambda>command_id.
         bind_io (sequence
                    [print_line (''Monitoring AWS SSM Command ID: '' @ format_value e command_id),
                     print_line (''Polling interval: '' @ str_int (interval a) @ '' seconds''),
                     print_line ''----------------------------------------''])
           (\<lambda>_.
         bind_io (open_client e a) (\<lambda>_. ([], Return (a, command_id))))))"

definition main :: "env \<Rightarrow> (unit io) option" where
  "main e =
     (case startup e of
        (es, Return (a, command_id)) \<Rightarrow> poll_loop e a command_id False 0 es
      | (es, Exit c) \<Rightarrow> Some (es, Exit c)
      | (es, Raise x) \<Rightarrow> Some (es, Raise x))"

text \<open>
  The end of the process: returning from \<^verbatim>\<open>main\<close> gives exit status 0,
  \<^verbatim>\<open>sys.exit(c)\<close> gives \<open>c\<close>, and for an exception nobody caught the interpreter writes
  the traceback to the error stream and gives 1.
\<close>

definition terminate :: "'a io \<Rightarrow> event list \<times> int" where
  "terminate r =
     (case r of
        (es, Return _) \<Rightarrow> (es, 0)
      | (es, Exit c) \<Rightarrow> (es, c)
      | (es, Raise x) \<Rightarrow> (es @ [Traceback x], 1))"

definition run_script :: "env \<Rightarrow> (event list \<times> int) option" where
  "run_script e = map_option terminate (main e)"

text \<open>
  An environment for worked examples: the text on standard input with the value
  \<^verbatim>\<open>json.loads\<close> gives for it, the optional \<^verbatim>\<open>--interval\<close>, and the reply of the
  service to each call; no profile and no region are given, and creating the session
  and the client succeeds.
\<close>

definition example_env ::
  "int option \<Rightarrow> string \<Rightarrow> pyexn + pyval \<Rightarrow> (nat \<Rightarrow> pyexn + response) \<Rightarrow> env" where
  "example_env interval_option text parsed replies =
     \<lparr>argv_interval = interval_option,
      argv_profile = None,
      argv_region = None,
      stdin_text = text,
      json_loads = (\<lambda>t. if t = text then parsed else Inl JSONDecodeError),
      py_str = (\<lambda>v. ''?''),
      new_session = (\<lambda>p. Inr None),
      new_client = (\<lambda>r. None),
      list_command_invocations = (\<lambda>n c d. replies n),
      sleep_max = 9223372036\<rparr>"

definition reply :: "string list \<Rightarrow> pyexn + response" where
  \<comment> \<open>a reply of the service with one record for each of the given statuses\<close>
  "reply statuses =
     Inr \<lparr>CommandInvocations = Some (map (\<lambda>s. \<lparr>Status = Some s\<rparr>) statuses)\<rparr>"

text \<open>
  The run of the specification's end-to-end scenario: the input
  \<^verbatim>\<open>{"Command":{"CommandId":"abc-123"}}\<close>, a first reply with statuses
  \<^verbatim>\<open>Success, Success, InProgress\<close> and then replies with three times \<^verbatim>\<open>Success\<close>.
\<close>

definition scenario_text :: string where
  "scenario_text =
     ''{'' @ [CHR 0x22] @ ''Command'' @ [CHR 0x22] @ '':{'' @ [CHR 0x22] @ ''CommandId''
       @ [CHR 0x22] @ '':'' @ [CHR 0x22] @ ''abc-123'' @ [CHR 0x22] @ ''}}''"

definition scenario_env :: env where
  "scenario_env =
     example_env None scenario_text
       (Inr (PyDict [(''Command'', PyDict [(''CommandId'', PyStr ''abc-123'')])]))
       (\<lambda>n. if n = 0 then reply [''Success'', ''Success'', ''InProgress'']
             else reply [''Success'', ''Success'', ''Success''])"

section \<open>A closed form of the summary\<close>

text \<open>
  The eight keys of the dictionary (the seven named categories and \<^verbatim>\<open>Other\<close>), the
  bucket a record falls into, and the summary as the number of records in each bucket.
  They serve to state and to prove the properties; the summarizer itself is
  \<open>summarize_status\<close> above.
\<close>

definition named_categories :: "string list" where
  "named_categories =
     [''Success'', ''Failed'', ''InProgress'', ''Cancelled'',
      ''TimedOut'', ''Cancelling'', ''Received'']"

definition categories :: "string list" where
  "categories = named_categories @ [''Other'']"

definition bucket :: "invocation \<Rightarrow> string" where
  "bucket r =
     (case Status r of
        None \<Rightarrow> ''Other''
      | Some s \<Rightarrow> if s \<in> set categories then s else ''Other'')"

definition table :: "(string \<Rightarrow> int) \<Rightarrow> summary" where
  "table f = map (\<lambda>k. (k, f k)) categories"

definition occurrences :: "invocation list \<Rightarrow> string \<Rightarrow> int" where
  "occurrences invs k = int (length (filter (\<lambda>r. bucket r = k) invs))"

lemma distinct_categories: "distinct categories"
  by (simp add: categories_def named_categories_def)

lemma initial_summary_table: "initial_summary = table (\<lambda>k. 0)"
  by (simp add: initial_summary_def table_def categories_def named_categories_def)

lemma map_fst_table: "map fst (table f) = categories"
  by (simp add: table_def comp_def)

lemma map_of_graph:
  "map_of (map (\<lambda>k. (k, f k)) ks) k = (if k \<in> set ks then Some (f k) else None)"
  by (induction ks) auto

lemma map_of_table:
  "map_of (table f) k = (if k \<in> set categories then Some (f k) else None)"
  by (simp add: table_def map_of_graph)

lemma update_absent:
  "k \<notin> set ks \<Longrightarrow>
   map (\<lambda>k'. (k', (f(k := v)) k')) ks = map (\<lambda>k'. (k', f k')) ks"
  by (induction ks) auto

lemma update_graph:
  "distinct ks \<Longrightarrow> k \<in> set ks \<Longrightarrow>
   AList.update k v (map (\<lambda>k'. (k', f k')) ks) = map (\<lambda>k'. (k', (f(k := v)) k')) ks"
proof (induction ks)
  case Nil
  then show ?case by simp
next
  case (Cons a ks)
  show ?case
  proof (cases "a = k")
    case True
    with Cons.prems have "k \<notin> set ks" by simp
    with True show ?thesis using update_absent [of k ks f v] by simp
  next
    case False
    with Cons show ?thesis by simp
  qed
qed

lemma increment_table:
  assumes "k \<in> set categories"
  shows "increment (table f) k = Inr (table (f(k := f k + 1)))"
proof -
  have "getitem (table f) k = Inr (f k)"
    using assms by (simp add: getitem_def map_of_table)
  moreover have "setitem (table f) k (f k + 1) = table (f(k := f k + 1))"
    unfolding setitem_def table_def
    by (rule update_graph [OF distinct_categories assms])
  ultimately show ?thesis by (simp add: increment_def)
qed

lemma bucket_in_categories: "bucket r \<in> set categories"
  by (simp add: bucket_def categories_def split: option.split)

lemma bucket_Some:
  "Status r = Some s \<Longrightarrow> bucket r = (if s \<in> set named_categories then s else ''Other'')"
  by (auto simp: bucket_def categories_def)

lemma bucket_None: "Status r = None \<Longrightarrow> bucket r = ''Other''"
  by (simp add: bucket_def)

lemma getitem_table:
  "k \<in> set categories \<Longrightarrow> getitem (table f) k = Inr (f k)"
  by (simp add: getitem_def map_of_table)

lemma occurrences_insert:
  "occurrences (before @ r # after) k
     = occurrences (before @ after) k + (if k = bucket r then 1 else 0)"
  by (auto simp: occurrences_def)

lemma length_filter_mset:
  "int (length (filter P xs)) = int (size (filter_mset P (mset xs)))"
proof -
  have "length (filter P xs) = size (mset (filter P xs))" by (simp only: size_mset)
  then show ?thesis by (simp only: mset_filter)
qed

lemma occurrences_statuses:
  "occurrences invs k
     = int (length (filter
         (\<lambda>st. (case st of
                  None \<Rightarrow> ''Other''
                | Some s \<Rightarrow> if s \<in> set categories then s else ''Other'') = k)
         (map Status invs)))"
  by (induction invs) (simp_all add: occurrences_def bucket_def)

lemma occurrences_mset:
  assumes "mset (map Status invs) = mset (map Status invs')"
  shows "occurrences invs = occurrences invs'"
proof
  fix k
  show "occurrences invs k = occurrences invs' k"
    by (simp only: occurrences_statuses length_filter_mset assms)
qed

lemma count_invocation_table:
  "count_invocation r (table f) = Inr (table (f(bucket r := f (bucket r) + 1)))"
proof (cases "Status r")
  case None
  have "''Other'' \<in> set categories" by (simp add: categories_def)
  with None show ?thesis
    by (simp add: count_invocation_def bucket_def increment_table)
next
  case (Some s)
  have other: "''Other'' \<in> set categories" by (simp add: categories_def)
  show ?thesis
  proof (cases "s \<in> set categories")
    case True
    with Some show ?thesis
      by (simp add: count_invocation_def contains_def map_fst_table
          bucket_def increment_table)
  next
    case False
    with Some other show ?thesis
      by (simp add: count_invocation_def contains_def map_fst_table
          bucket_def increment_table)
  qed
qed

lemma summarize_loop_table:
  "summarize_loop invs (table f) = Inr (table (\<lambda>k. f k + occurrences invs k))"
proof (induction invs arbitrary: f)
  case Nil
  show ?case by (simp add: occurrences_def)
next
  case (Cons r invs)
  have "table (\<lambda>k. (f(bucket r := f (bucket r) + 1)) k + occurrences invs k)
      = table (\<lambda>k. f k + occurrences (r # invs) k)"
    by (simp add: table_def occurrences_def)
  with Cons show ?case
    by (simp add: count_invocation_table)
qed

lemma summarize_status_table:
  "summarize_status invs = Inr (table (occurrences invs))"
  by (simp add: summarize_status_def initial_summary_table summarize_loop_table)

lemma summarize_loop_at_table:
  "ref < length h \<Longrightarrow> h ! ref = table f \<Longrightarrow>
   summarize_loop_at ref invs h
     = (None, h[ref := table (\<lambda>k. f k + occurrences invs k)])"
proof (induction invs arbitrary: f h)
  case Nil
  from Nil have "h[ref := table f] = h" by (metis list_update_id)
  then show ?case by (simp add: occurrences_def)
next
  case (Cons r invs)
  let ?g = "f(bucket r := f (bucket r) + 1)"
  have eq: "table (\<lambda>k. ?g k + occurrences invs k)
      = table (\<lambda>k. f k + occurrences (r # invs) k)"
    by (simp add: table_def occurrences_def)
  have step: "count_invocation r (h ! ref) = Inr (table ?g)"
    unfolding Cons.prems(2) by (rule count_invocation_table)
  have "summarize_loop_at ref (r # invs) h
      = summarize_loop_at ref invs (h[ref := table ?g])"
    by (simp only: summarize_loop_at.simps step sum.case)
  also have "\<dots> = (None, (h[ref := table ?g])
                        [ref := table (\<lambda>k. ?g k + occurrences invs k)])"
  proof (rule Cons.IH [where f = ?g])
    show "ref < length (h[ref := table ?g])" using Cons.prems(1) by simp
    show "h[ref := table ?g] ! ref = table ?g" using Cons.prems(1) by simp
  qed
  finally show ?case by (simp only: eq list_update_overwrite)
qed

lemma summarize_status_at_table:
  "summarize_status_at invs h = (Inr (length h), h @ [table (occurrences invs)])"
  using summarize_loop_at_table [of "length h" "h @ [initial_summary]" "\<lambda>k. 0" invs]
  by (simp add: summarize_status_at_def allocate_def initial_summary_table)

lemma sum_list_indicator_absent:
  "b \<notin> set ks \<Longrightarrow> (\<Sum>k\<leftarrow>ks. (if b = k then 1 else 0 :: int)) = 0"
  by (induction ks) auto

lemma sum_list_indicator:
  assumes "distinct ks" and "b \<in> set ks"
  shows "(\<Sum>k\<leftarrow>ks. (if b = k then 1 else 0 :: int)) = 1"
  using assms by (induction ks) (auto simp: sum_list_indicator_absent)

lemma total_occurrences:
  "(\<Sum>k\<leftarrow>categories. occurrences invs k) = int (length invs)"
proof (induction invs)
  case Nil
  show ?case by (simp add: occurrences_def)
next
  case (Cons r invs)
  have "(\<Sum>k\<leftarrow>categories. occurrences (r # invs) k)
      = (\<Sum>k\<leftarrow>categories. (if bucket r = k then 1 else 0) + occurrences invs k)"
    by (rule arg_cong [where f = sum_list]) (simp add: occurrences_def)
  also have "\<dots> = (\<Sum>k\<leftarrow>categories. (if bucket r = k then 1 else 0 :: int))
                 + (\<Sum>k\<leftarrow>categories. occurrences invs k)"
    by (simp add: sum_list_addf)
  also have "\<dots> = 1 + int (length invs)"
    by (simp add: sum_list_indicator [OF distinct_categories bucket_in_categories] Cons)
  finally show ?case by simp
qed

lemma total_table: "total_instances (table f) = (\<Sum>k\<leftarrow>categories. f k)"
  by (simp add: total_instances_def table_def comp_def)

section \<open>The passes of the polling loop\<close>

lemma key_in_categories:
  "''Success'' \<in> set categories" "''Failed'' \<in> set categories"
  "''InProgress'' \<in> set categories" "''Cancelled'' \<in> set categories"
  "''TimedOut'' \<in> set categories" "''Cancelling'' \<in> set categories"
  "''Received'' \<in> set categories" "''Other'' \<in> set categories"
  by (simp_all add: categories_def named_categories_def)

lemma print_count_table:
  "k \<in> set categories \<Longrightarrow>
   print_count label (table f) k = ([Stdout (label @ str_int (f k))], Return ())"
  by (simp add: print_count_def getitem_table lift_def bind_io_def print_line_def)

lemma print_summary_table:
  "print_summary (table f) =
     ([Stdout ''Status Summary:'',
       Stdout (''  Total Instances:    '' @ str_int (total_instances (table f))),
       Stdout (''  Success:            '' @ str_int (f ''Success'')),
       Stdout (''  Failed:             '' @ str_int (f ''Failed'')),
       Stdout (''  In Progress:        '' @ str_int (f ''InProgress'')),
       Stdout (''  Cancelled:          '' @ str_int (f ''Cancelled'')),
       Stdout (''  Timed Out:          '' @ str_int (f ''TimedOut'')),
       Stdout (''  Cancelling:         '' @ str_int (f ''Cancelling'')),
       Stdout (''  Received:           '' @ str_int (f ''Received'')),
       Stdout (''  Other:              '' @ str_int (f ''Other'')),
       Stdout ''----------------------------------------''], Return ())"
  by (simp add: print_summary_def print_count_table key_in_categories print_line_def
      bind_io_def)

lemma print_summary_returns: "snd (print_summary (table f)) = Return ()"
  by (simp add: print_summary_table)

lemma all_finished_table:
  "all_finished (table f)
     = Inr (f ''InProgress'' = 0 \<and> f ''Cancelling'' = 0 \<and> f ''Received'' = 0)"
  by (simp add: all_finished_def getitem_table key_in_categories)

text \<open>What one pass does once the fetch has returned the records.\<close>

lemma poll_once_fetched:
  assumes "fetch_command_invocations (list_command_invocations e n) cid = (es, Return invs)"
  shows "poll_once e a cid n =
     (let s = table (occurrences invs) in
      if occurrences invs ''InProgress'' = 0 \<and> occurrences invs ''Cancelling'' = 0
           \<and> occurrences invs ''Received'' = 0
      then (if occurrences invs ''Failed'' > 0
            then (es @ fst (print_summary s) @ [Stdout ''Some invocations failed.''], Exit 1)
            else (es @ fst (print_summary s) @ [Stdout ''All invocations succeeded.''], Exit 0))
      else (case time_sleep e (interval a) of
              (es', Return _) \<Rightarrow> (es @ fst (print_summary s) @ es', Return False)
            | (es', Exit c) \<Rightarrow> (es @ fst (print_summary s) @ es', Exit c)
            | (es', Raise x) \<Rightarrow> (es @ fst (print_summary s) @ es', Raise x)))"
proof -
  obtain lines where lines: "print_summary (table (occurrences invs)) = (lines, Return ())"
    by (metis print_summary_returns prod.collapse)
  show ?thesis
    unfolding poll_once_def assms summarize_status_table
    by (simp add: bind_io_def lift_def lines all_finished_table getitem_table
        key_in_categories Let_def split: prod.split outcome.split)
qed

lemma fetch_reply:
  "list_command_invocations e n cid True = Inr r \<Longrightarrow>
   fetch_command_invocations (list_command_invocations e n) cid
     = ([ListCommandInvocations cid True],
        Return (case CommandInvocations r of None \<Rightarrow> [] | Some invs \<Rightarrow> invs))"
  by (simp add: fetch_command_invocations_def)

lemma fetch_error:
  "list_command_invocations e n cid True = Inl x \<Longrightarrow>
   fetch_command_invocations (list_command_invocations e n) cid
     = (case x of
          ClientError detail \<Rightarrow>
            ([ListCommandInvocations cid True,
              Stderr (''Error fetching command invocations: '' @ detail)], Exit 1)
        | _ \<Rightarrow> ([ListCommandInvocations cid True], Raise x))"
  by (simp add: fetch_command_invocations_def split: pyexn.split)

text \<open>A loop whose every pass from the \<open>n\<close>-th on returns never ends.\<close>

lemma poll_loop_never_returns:
  assumes busy: "\<And>m. n \<le> m \<Longrightarrow> \<exists>es. poll_once e a cid m = (es, Return False)"
  shows "poll_loop e a cid False n trace = None"
proof (rule ccontr)
  assume "poll_loop e a cid False n trace \<noteq> None"
  then obtain y where y: "poll_loop e a cid False n trace = Some y" by auto
  have "\<not> (e' = e \<and> a' = a \<and> cid' = cid \<and> \<not> ac \<and> n \<le> m)"
    if run: "poll_loop e' a' cid' ac m tr = Some y'"
    for e' a' cid' ac m tr y'
    apply (rule poll_loop.raw_induct
        [where P = "\<lambda>e' a' cid' ac m tr y'.
                      \<not> (e' = e \<and> a' = a \<and> cid' = cid \<and> \<not> ac \<and> n \<le> m)",
          OF _ run])
    subgoal premises prems for loop e' a' cid' ac m tr y'
    proof
      assume h: "e' = e \<and> a' = a \<and> cid' = cid \<and> \<not> ac \<and> n \<le> m"
      then have "n \<le> m" by simp
      from busy [OF this] obtain es where es: "poll_once e a cid m = (es, Return False)"
        by blast
      from prems(2) es h
      have "loop e a cid False (Suc m) (tr @ es) = Some y'" by simp
      from prems(1) [OF this] h show False by simp
    qed
    done
  from this [OF y] show False by simp
qed

lemma poll_loop_step:
  "poll_loop e a cid False n trace
     = (case poll_once e a cid n of
          (es, Return all_completed) \<Rightarrow> poll_loop e a cid all_completed (Suc n) (trace @ es)
        | (es, Exit c) \<Rightarrow> Some (trace @ es, Exit c)
        | (es, Raise x) \<Rightarrow> Some (trace @ es, Raise x))"
  by (subst poll_loop.simps) simp

lemma time_sleep_ok:
  "0 \<le> secs \<Longrightarrow> secs \<le> sleep_max e \<Longrightarrow> time_sleep e secs = ([Sleep secs], Return ())"
  by (simp add: time_sleep_def)

lemma poll_once_busy:
  assumes fetch: "fetch_command_invocations (list_command_invocations e n) cid = (es, Return invs)"
    and s: "summarize_status invs = Inr s"
    and busy: "\<not> (getitem s ''InProgress'' = Inr 0 \<and> getitem s ''Cancelling'' = Inr 0
                 \<and> getitem s ''Received'' = Inr 0)"
    and range: "0 \<le> interval a" "interval a \<le> sleep_max e"
  shows "poll_once e a cid n = (es @ fst (print_summary s) @ [Sleep (interval a)], Return False)"
proof -
  from s have s': "s = table (occurrences invs)" by (simp add: summarize_status_table)
  from busy have "\<not> (occurrences invs ''InProgress'' = 0 \<and> occurrences invs ''Cancelling'' = 0
           \<and> occurrences invs ''Received'' = 0)"
    unfolding s' by (simp add: getitem_table key_in_categories)
  then show ?thesis
    unfolding poll_once_fetched [OF fetch] s'
    by (simp add: Let_def time_sleep_ok [OF range])
qed

lemma str_int_0: "str_int 0 = ''0''"
  by (simp add: str_int_def)

lemma occurrences_Nil: "occurrences [] k = 0"
  by (simp add: occurrences_def)

lemma fetch_example:
  "fetch_command_invocations
     (list_command_invocations (example_env i text parsed (\<lambda>n. reply statuses)) n) cid
   = ([ListCommandInvocations cid True],
      Return (map (\<lambda>s. \<lparr>Status = Some s\<rparr>) statuses))"
  by (simp add: fetch_command_invocations_def example_env_def reply_def)

section \<open>Claims about the status summarizer\<close>

text \<open>
  C2. For every sequence of invocation records the summarizer returns a summary, and the
  sum of its eight counts, computed as \<^verbatim>\<open>sum(summary.values())\<close>, is the length of the
  sequence: every record is counted in exactly one bucket.
\<close>

theorem summary_total_is_length:
  "\<exists>s. summarize_status invs = Inr s \<and> map fst s = categories
       \<and> total_instances s = int (length invs)"
  by (simp add: summarize_status_table map_fst_table total_table total_occurrences)

text \<open>
  C4. A record whose status string is exactly one of the seven named categories adds one
  to that category's count, and a record with any other status string adds one to
  \<^verbatim>\<open>Other\<close>; no other count changes, wherever the record stands in the sequence. So the
  record is never dropped and never counted into a named bucket that is not its own.
\<close>

theorem status_string_counted_once:
  assumes "Status r = Some s"
  shows "\<exists>d d'. summarize_status (before @ after) = Inr d
           \<and> summarize_status (before @ r # after) = Inr d'
           \<and> map fst d' = categories
           \<and> (\<forall>k \<in> set categories. \<exists>v. getitem d k = Inr v
                \<and> getitem d' k
                    = Inr (v + (if k = (if s \<in> set named_categories then s else ''Other'')
                                then 1 else 0)))"
  using assms
  by (simp add: summarize_status_table map_fst_table getitem_table occurrences_insert
      bucket_Some)

theorem status_string_counted_once_witness:
  "(\<exists>d d'. summarize_status ([] @ []) = Inr d
      \<and> summarize_status ([] @ \<lparr>Status = Some ''Failed''\<rparr> # []) = Inr d'
      \<and> map fst d' = categories
      \<and> (\<forall>k \<in> set categories. \<exists>v. getitem d k = Inr v
            \<and> getitem d' k = Inr (v + (if k = ''Failed'' then 1 else 0))))
   \<and> (\<exists>d d'. summarize_status ([\<lparr>Status = Some ''Failed''\<rparr>] @ []) = Inr d
      \<and> summarize_status ([\<lparr>Status = Some ''Failed''\<rparr>] @ \<lparr>Status = Some ''Delayed''\<rparr> # [])
          = Inr d'
      \<and> map fst d' = categories
      \<and> (\<forall>k \<in> set categories. \<exists>v. getitem d k = Inr v
            \<and> getitem d' k = Inr (v + (if k = ''Other'' then 1 else 0))))"
  using status_string_counted_once
    [of "\<lparr>Status = Some ''Failed''\<rparr>" "''Failed''" "[]" "[]"]
    status_string_counted_once
    [of "\<lparr>Status = Some ''Delayed''\<rparr>" "''Delayed''" "[\<lparr>Status = Some ''Failed''\<rparr>]" "[]"]
  by (simp add: named_categories_def)

text \<open>
  C8. A record with no status entry, for which \<^verbatim>\<open>invocation.get("Status")\<close> is
  \<^verbatim>\<open>None\<close>, adds one to \<^verbatim>\<open>Other\<close> and changes no other count; the summarizer does
  not raise on it and does not skip it.
\<close>

theorem missing_status_counted_as_other:
  assumes "Status r = None"
  shows "\<exists>d d'. summarize_status (before @ after) = Inr d
           \<and> summarize_status (before @ r # after) = Inr d'
           \<and> map fst d' = categories
           \<and> (\<forall>k \<in> set categories. \<exists>v. getitem d k = Inr v
                \<and> getitem d' k = Inr (v + (if k = ''Other'' then 1 else 0)))"
  using assms
  by (simp add: summarize_status_table map_fst_table getitem_table occurrences_insert
      bucket_None)

theorem missing_status_counted_as_other_witness:
  "\<exists>d d'. summarize_status ([\<lparr>Status = Some ''Success''\<rparr>] @ []) = Inr d
      \<and> summarize_status ([\<lparr>Status = Some ''Success''\<rparr>] @ \<lparr>Status = None\<rparr> # [])
          = Inr d'
      \<and> map fst d' = categories
      \<and> (\<forall>k \<in> set categories. \<exists>v. getitem d k = Inr v
            \<and> getitem d' k = Inr (v + (if k = ''Other'' then 1 else 0)))"
  using missing_status_counted_as_other
    [of "\<lparr>Status = None\<rparr>" "[\<lparr>Status = Some ''Success''\<rparr>]" "[]"]
  by simp

text \<open>
  C10. Two sequences of records that are permutations of each other (they have the same
  multiset of records) get the same summary; more generally, so do two sequences whose
  statuses form the same multiset, whatever the order of the records.
\<close>

theorem summary_of_permutation:
  "(mset invs = mset invs' \<longrightarrow> summarize_status invs = summarize_status invs')
   \<and> (mset (map Status invs) = mset (map Status invs')
        \<longrightarrow> summarize_status invs = summarize_status invs')"
proof (intro conjI impI)
  assume "mset (map Status invs) = mset (map Status invs')"
  from occurrences_mset [OF this]
  show "summarize_status invs = summarize_status invs'"
    by (simp add: summarize_status_table)
next
  assume "mset invs = mset invs'"
  then have "mset (map Status invs) = mset (map Status invs')"
    by (metis mset_map)
  from occurrences_mset [OF this]
  show "summarize_status invs = summarize_status invs'"
    by (simp add: summarize_status_table)
qed

theorem summary_of_permutation_witness:
  "summarize_status
     [\<lparr>Status = Some ''Failed''\<rparr>, \<lparr>Status = None\<rparr>, \<lparr>Status = Some ''Success''\<rparr>]
   = summarize_status
       [\<lparr>Status = Some ''Success''\<rparr>, \<lparr>Status = Some ''Failed''\<rparr>, \<lparr>Status = None\<rparr>]"
proof -
  have "mset [\<lparr>Status = Some ''Failed''\<rparr>, \<lparr>Status = None\<rparr>, \<lparr>Status = Some ''Success''\<rparr>]
      = mset [\<lparr>Status = Some ''Success''\<rparr>, \<lparr>Status = Some ''Failed''\<rparr>, \<lparr>Status = None\<rparr>]"
    by simp
  with summary_of_permutation show ?thesis by blast
qed

text \<open>
  C7. Calling the summarizer twice on the same sequence, the second call in the store the
  first one left: both calls return, each a reference to a dictionary of its own; no
  object that was in the store before is changed (no side effect), the second call
  leaves the first summary as it was, the two summaries are equal, and they are the
  summary \<open>summarize_status\<close> computes from the sequence alone (no hidden state).
\<close>

theorem summarize_twice_same_summary:
  "\<exists>ref1 h1 ref2 h2.
      summarize_status_at invs h = (Inr ref1, h1)
    \<and> summarize_status_at invs h1 = (Inr ref2, h2)
    \<and> ref1 \<noteq> ref2 \<and> ref1 < length h1 \<and> ref2 < length h2
    \<and> take (length h) h1 = h \<and> take (length h) h2 = h
    \<and> h2 ! ref1 = h1 ! ref1
    \<and> h2 ! ref2 = h1 ! ref1
    \<and> summarize_status invs = Inr (h2 ! ref2)"
  by (simp add: summarize_status_at_table summarize_status_table nth_append)

section \<open>Claims about the fetcher and the polling loop\<close>

text \<open>
  What a failed remote call does to the run, whatever the exception: the process ends
  in that pass with exit status 1, after one call and with no sleep. A
  \<^verbatim>\<open>ClientError\<close> is caught by the fetcher, which prints its detail to the error
  stream; any other exception is not caught anywhere, and it is the interpreter that
  writes its traceback.
\<close>

lemma fetch_error_outcome:
  assumes "list_command_invocations e n cid True = Inl x"
  shows "map_option terminate (poll_loop e a cid False n trace)
       = Some (trace @ [ListCommandInvocations cid True,
                        (case x of
                           ClientError detail \<Rightarrow>
                             Stderr (''Error fetching command invocations: '' @ detail)
                         | _ \<Rightarrow> Traceback x)], 1)"
proof -
  have "poll_once e a cid n
      = (case x of
          ClientError detail \<Rightarrow>
            ([ListCommandInvocations cid True,
              Stderr (''Error fetching command invocations: '' @ detail)], Exit 1)
        | _ \<Rightarrow> ([ListCommandInvocations cid True], Raise x))"
    unfolding poll_once_def fetch_error [OF assms]
    by (simp add: bind_io_def split: pyexn.split)
  then show ?thesis
    by (subst poll_loop.simps) (simp add: terminate_def split: pyexn.split)
qed

lemma client_error_example:
  "map_option terminate
     (poll_loop
        (example_env None [] (Inl JSONDecodeError) (\<lambda>n. Inl (ClientError ''AccessDenied'')))
        \<lparr>interval = 15, profile = None, region = None\<rparr> (PyStr ''abc-123'') False 0 [])
     = Some ([ListCommandInvocations (PyStr ''abc-123'') True,
              Stderr ''Error fetching command invocations: AccessDenied''], 1)"
proof -
  let ?e = "example_env None [] (Inl JSONDecodeError) (\<lambda>n. Inl (ClientError ''AccessDenied''))"
  have "list_command_invocations ?e 0 (PyStr ''abc-123'') True
      = Inl (ClientError ''AccessDenied'')"
    by (simp add: example_env_def)
  from fetch_error_outcome
    [OF this, where a = "\<lparr>interval = 15, profile = None, region = None\<rparr>" and trace = "[]"]
  show ?thesis by simp
qed

text \<open>
  C5 says that the fetcher writes the error detail and the process exits with status 1
  whenever the remote call fails, a network fault included. A network fault reaches the
  module as an exception that is not a \<^verbatim>\<open>ClientError\<close>: the fetcher prints nothing
  and does not call \<^verbatim>\<open>sys.exit\<close>, the exception leaves it, and the process ends with
  the interpreter's traceback and status 1.
\<close>

theorem network_fault_not_caught:
  "fetch_command_invocations
     (list_command_invocations
        (example_env None [] (Inl JSONDecodeError) (\<lambda>n. Inl (OtherError ''unreachable''))) 0)
     (PyStr ''abc-123'')
     = ([ListCommandInvocations (PyStr ''abc-123'') True], Raise (OtherError ''unreachable''))
   \<and> map_option terminate
       (poll_loop
          (example_env None [] (Inl JSONDecodeError) (\<lambda>n. Inl (OtherError ''unreachable'')))
          \<lparr>interval = 15, profile = None, region = None\<rparr> (PyStr ''abc-123'') False 0 [])
     = Some ([ListCommandInvocations (PyStr ''abc-123'') True,
              Traceback (OtherError ''unreachable'')], 1)"
proof -
  let ?e = "example_env None [] (Inl JSONDecodeError) (\<lambda>n. Inl (OtherError ''unreachable''))"
  have call: "list_command_invocations ?e 0 (PyStr ''abc-123'') True
      = Inl (OtherError ''unreachable'')"
    by (simp add: example_env_def)
  from fetch_error [OF call] fetch_error_outcome
    [OF call, where a = "\<lparr>interval = 15, profile = None, region = None\<rparr>" and trace = "[]"]
  show ?thesis by simp
qed

text \<open>
  C1. In a pass whose fetch returned the records, with \<open>s\<close> their summary: if
  \<^verbatim>\<open>InProgress\<close>, \<^verbatim>\<open>Cancelling\<close> and \<^verbatim>\<open>Received\<close> are all 0 in \<open>s\<close>, the pass calls
  \<^verbatim>\<open>sys.exit\<close> and the run ends there, the process exiting with status 1 when
  \<^verbatim>\<open>Failed\<close> is positive and with status 0 otherwise. If one of the three is not 0,
  the pass does not call \<^verbatim>\<open>sys.exit\<close> and does not set \<^verbatim>\<open>all_completed\<close>, and the run
  is not complete: it goes on with the next pass after the sleep, or, when
  \<^verbatim>\<open>time.sleep\<close> refuses the interval, it ends with that exception and not as a
  completed run.
\<close>

theorem completion_and_exit_code:
  assumes "fetch_command_invocations (list_command_invocations e n) cid = (es, Return invs)"
  shows "\<exists>s failed. summarize_status invs = Inr s \<and> getitem s ''Failed'' = Inr failed \<and>
     (if getitem s ''InProgress'' = Inr 0 \<and> getitem s ''Cancelling'' = Inr 0
           \<and> getitem s ''Received'' = Inr 0
      then snd (poll_once e a cid n) = Exit (if failed > 0 then 1 else 0)
         \<and> map_option terminate (poll_loop e a cid False n trace)
             = Some (trace @ es @ fst (print_summary s)
                       @ [Stdout (if failed > 0 then ''Some invocations failed.''
                                  else ''All invocations succeeded.'')],
                     if failed > 0 then 1 else 0)
      else (\<forall>c. snd (poll_once e a cid n) \<noteq> Exit c)
         \<and> snd (poll_once e a cid n) \<noteq> Return True
         \<and> (if 0 \<le> interval a \<and> interval a \<le> sleep_max e
             then poll_loop e a cid False n trace
                    = poll_loop e a cid False (Suc n)
                        (trace @ es @ fst (print_summary s) @ [Sleep (interval a)])
             else poll_loop e a cid False n trace
                    = Some (trace @ es @ fst (print_summary s),
                            Raise (if interval a < 0 then ValueError else OverflowError))))"
proof -
  let ?s = "table (occurrences invs)"
  let ?failed = "occurrences invs ''Failed''"
  let ?complete = "occurrences invs ''InProgress'' = 0 \<and> occurrences invs ''Cancelling'' = 0
    \<and> occurrences invs ''Received'' = 0"
  have g: "getitem ?s ''Failed'' = Inr ?failed"
    "getitem ?s ''InProgress'' = Inr (occurrences invs ''InProgress'')"
    "getitem ?s ''Cancelling'' = Inr (occurrences invs ''Cancelling'')"
    "getitem ?s ''Received'' = Inr (occurrences invs ''Received'')"
    by (simp_all add: getitem_table key_in_categories)
  note once = poll_once_fetched [OF assms, of a]
  note step = poll_loop_step [of e a cid n trace]
  have body: "if ?complete
      then snd (poll_once e a cid n) = Exit (if ?failed > 0 then 1 else 0)
         \<and> map_option terminate (poll_loop e a cid False n trace)
             = Some (trace @ es @ fst (print_summary ?s)
                       @ [Stdout (if ?failed > 0 then ''Some invocations failed.''
                                  else ''All invocations succeeded.'')],
                     if ?failed > 0 then 1 else 0)
      else (\<forall>c. snd (poll_once e a cid n) \<noteq> Exit c)
         \<and> snd (poll_once e a cid n) \<noteq> Return True
         \<and> (if 0 \<le> interval a \<and> interval a \<le> sleep_max e
             then poll_loop e a cid False n trace
                    = poll_loop e a cid False (Suc n)
                        (trace @ es @ fst (print_summary ?s) @ [Sleep (interval a)])
             else poll_loop e a cid False n trace
                    = Some (trace @ es @ fst (print_summary ?s),
                            Raise (if interval a < 0 then ValueError else OverflowError)))"
  proof (cases ?complete)
    case True
    then show ?thesis
      by (simp add: step once Let_def terminate_def)
  next
    case False
    then show ?thesis
      by (auto simp: step once Let_def time_sleep_def)
  qed
  show ?thesis
  proof (intro exI conjI)
    show "summarize_status invs = Inr ?s" by (rule summarize_status_table)
    show "getitem ?s ''Failed'' = Inr ?failed" by (rule g)
    from body show "if getitem ?s ''InProgress'' = Inr 0 \<and> getitem ?s ''Cancelling'' = Inr 0
           \<and> getitem ?s ''Received'' = Inr 0
      then snd (poll_once e a cid n) = Exit (if ?failed > 0 then 1 else 0)
         \<and> map_option terminate (poll_loop e a cid False n trace)
             = Some (trace @ es @ fst (print_summary ?s)
                       @ [Stdout (if ?failed > 0 then ''Some invocations failed.''
                                  else ''All invocations succeeded.'')],
                     if ?failed > 0 then 1 else 0)
      else (\<forall>c. snd (poll_once e a cid n) \<noteq> Exit c)
         \<and> snd (poll_once e a cid n) \<noteq> Return True
         \<and> (if 0 \<le> interval a \<and> interval a \<le> sleep_max e
             then poll_loop e a cid False n trace
                    = poll_loop e a cid False (Suc n)
                        (trace @ es @ fst (print_summary ?s) @ [Sleep (interval a)])
             else poll_loop e a cid False n trace
                    = Some (trace @ es @ fst (print_summary ?s),
                            Raise (if interval a < 0 then ValueError else OverflowError)))"
      unfolding g by simp
  qed
qed

theorem completion_and_exit_code_witness:
  "snd (poll_once
          (example_env None [] (Inl JSONDecodeError)
             (\<lambda>n. if n = 0 then reply [''InProgress''] else reply [''Success'', ''Failed'']))
          \<lparr>interval = 15, profile = None, region = None\<rparr> (PyStr ''abc-123'') (Suc 0))
     = Exit 1
   \<and> map_option (snd \<circ> terminate)
       (poll_loop
          (example_env None [] (Inl JSONDecodeError)
             (\<lambda>n. if n = 0 then reply [''InProgress''] else reply [''Success'', ''Failed'']))
          \<lparr>interval = 15, profile = None, region = None\<rparr> (PyStr ''abc-123'') False 0 [])
     = Some 1"
proof -
  let ?e = "example_env None [] (Inl JSONDecodeError)
    (\<lambda>n. if n = 0 then reply [''InProgress''] else reply [''Success'', ''Failed''])"
  let ?a = "\<lparr>interval = 15, profile = None, region = None\<rparr>"
  let ?cid = "PyStr ''abc-123''"
  let ?busy = "[\<lparr>Status = Some ''InProgress''\<rparr>]"
  let ?invs = "[\<lparr>Status = Some ''Success''\<rparr>, \<lparr>Status = Some ''Failed''\<rparr>]"
  have f0: "fetch_command_invocations (list_command_invocations ?e 0) ?cid
      = ([ListCommandInvocations ?cid True], Return ?busy)"
    by (simp add: fetch_command_invocations_def example_env_def reply_def)
  have f1: "fetch_command_invocations (list_command_invocations ?e (Suc 0)) ?cid
      = ([ListCommandInvocations ?cid True], Return ?invs)"
    by (simp add: fetch_command_invocations_def example_env_def reply_def)
  have o0: "occurrences ?busy ''InProgress'' = 1"
    by (simp add: occurrences_def bucket_def categories_def named_categories_def)
  have o1: "occurrences ?invs ''InProgress'' = 0" "occurrences ?invs ''Cancelling'' = 0"
    "occurrences ?invs ''Received'' = 0" "occurrences ?invs ''Failed'' = 1"
    by (simp_all add: occurrences_def bucket_def categories_def named_categories_def)
  have range: "0 \<le> interval ?a \<and> interval ?a \<le> sleep_max ?e"
    by (simp add: example_env_def)
  \<comment> \<open>the first pass is not complete: the loop goes on with the second pass\<close>
  from completion_and_exit_code [OF f0, of ?a "[]"]
  obtain s0 failed0 where s0: "summarize_status ?busy = Inr s0"
    and "getitem s0 ''Failed'' = Inr failed0"
    and claim0: "if getitem s0 ''InProgress'' = Inr 0 \<and> getitem s0 ''Cancelling'' = Inr 0
           \<and> getitem s0 ''Received'' = Inr 0
      then snd (poll_once ?e ?a ?cid 0) = Exit (if failed0 > 0 then 1 else 0)
         \<and> map_option terminate (poll_loop ?e ?a ?cid False 0 [])
             = Some ([] @ [ListCommandInvocations ?cid True] @ fst (print_summary s0)
                       @ [Stdout (if failed0 > 0 then ''Some invocations failed.''
                                  else ''All invocations succeeded.'')],
                     if failed0 > 0 then 1 else 0)
      else (\<forall>c. snd (poll_once ?e ?a ?cid 0) \<noteq> Exit c)
         \<and> snd (poll_once ?e ?a ?cid 0) \<noteq> Return True
         \<and> (if 0 \<le> interval ?a \<and> interval ?a \<le> sleep_max ?e
             then poll_loop ?e ?a ?cid False 0 []
                    = poll_loop ?e ?a ?cid False (Suc 0)
                        ([] @ [ListCommandInvocations ?cid True] @ fst (print_summary s0)
                           @ [Sleep (interval ?a)])
             else poll_loop ?e ?a ?cid False 0 []
                    = Some ([] @ [ListCommandInvocations ?cid True] @ fst (print_summary s0),
                            Raise (if interval ?a < 0 then ValueError else OverflowError)))"
    by (elim exE conjE) (rule that, assumption+)
  let ?trace = "[] @ [ListCommandInvocations ?cid True] @ fst (print_summary s0)
    @ [Sleep (interval ?a)]"
  from s0 have "s0 = table (occurrences ?busy)" by (simp add: summarize_status_table)
  then have "getitem s0 ''InProgress'' \<noteq> Inr 0"
    by (simp add: getitem_table key_in_categories o0)
  with claim0 range
  have first: "poll_loop ?e ?a ?cid False 0 [] = poll_loop ?e ?a ?cid False (Suc 0) ?trace"
    by simp
  \<comment> \<open>the second pass is complete, with one failure\<close>
  from completion_and_exit_code [OF f1, of ?a ?trace]
  obtain s failed where s: "summarize_status ?invs = Inr s"
    and failed: "getitem s ''Failed'' = Inr failed"
    and claim: "if getitem s ''InProgress'' = Inr 0 \<and> getitem s ''Cancelling'' = Inr 0
           \<and> getitem s ''Received'' = Inr 0
      then snd (poll_once ?e ?a ?cid (Suc 0)) = Exit (if failed > 0 then 1 else 0)
         \<and> map_option terminate (poll_loop ?e ?a ?cid False (Suc 0) ?trace)
             = Some (?trace @ [ListCommandInvocations ?cid True] @ fst (print_summary s)
                       @ [Stdout (if failed > 0 then ''Some invocations failed.''
                                  else ''All invocations succeeded.'')],
                     if failed > 0 then 1 else 0)
      else (\<forall>c. snd (poll_once ?e ?a ?cid (Suc 0)) \<noteq> Exit c)
         \<and> snd (poll_once ?e ?a ?cid (Suc 0)) \<noteq> Return True
         \<and> (if 0 \<le> interval ?a \<and> interval ?a \<le> sleep_max ?e
             then poll_loop ?e ?a ?cid False (Suc 0) ?trace
                    = poll_loop ?e ?a ?cid False (Suc (Suc 0))
                        (?trace @ [ListCommandInvocations ?cid True] @ fst (print_summary s)
                           @ [Sleep (interval ?a)])
             else poll_loop ?e ?a ?cid False (Suc 0) ?trace
                    = Some (?trace @ [ListCommandInvocations ?cid True] @ fst (print_summary s),
                            Raise (if interval ?a < 0 then ValueError else OverflowError)))"
    by (elim exE conjE) (rule that, assumption+)
  from s have s': "s = table (occurrences ?invs)" by (simp add: summarize_status_table)
  from failed have "failed = 1"
    unfolding s' by (simp add: getitem_table key_in_categories o1)
  moreover have "getitem s ''InProgress'' = Inr 0 \<and> getitem s ''Cancelling'' = Inr 0
      \<and> getitem s ''Received'' = Inr 0"
    unfolding s' by (simp add: getitem_table key_in_categories o1)
  ultimately have once: "snd (poll_once ?e ?a ?cid (Suc 0)) = Exit 1"
    and run: "map_option terminate (poll_loop ?e ?a ?cid False (Suc 0) ?trace)
        = Some (?trace @ [ListCommandInvocations ?cid True] @ fst (print_summary s)
                  @ [Stdout ''Some invocations failed.''], 1)"
    using claim by simp_all
  from run have "map_option snd (map_option terminate (poll_loop ?e ?a ?cid False 0 []))
      = Some 1"
    unfolding first by (simp only: option.map snd_conv)
  then have "map_option (snd \<circ> terminate) (poll_loop ?e ?a ?cid False 0 []) = Some 1"
    by (simp only: option.map_comp)
  with once show ?thesis by simp
qed

text \<open>
  C6, for an interval that \<^verbatim>\<open>time.sleep\<close> accepts (not negative and not beyond
  \<open>sleep_max\<close>). In a pass whose summary has \<^verbatim>\<open>InProgress\<close>, \<^verbatim>\<open>Cancelling\<close> or
  \<^verbatim>\<open>Received\<close> not 0, the loop does not exit: after printing the summary it sleeps for
  the interval and goes on with the next pass, which starts with the next fetch. When
  every pass has such a summary the loop never ends, so no number of passes bounds it.
  Without \<^verbatim>\<open>--interval\<close> the interval is 15.
\<close>

theorem keeps_polling_while_not_complete:
  assumes "0 \<le> interval a" and "interval a \<le> sleep_max e"
  shows "(\<forall>n trace es invs s.
            fetch_command_invocations (list_command_invocations e n) cid = (es, Return invs)
            \<longrightarrow> summarize_status invs = Inr s
            \<longrightarrow> \<not> (getitem s ''InProgress'' = Inr 0 \<and> getitem s ''Cancelling'' = Inr 0
                    \<and> getitem s ''Received'' = Inr 0)
            \<longrightarrow> poll_once e a cid n
                  = (es @ fst (print_summary s) @ [Sleep (interval a)], Return False)
              \<and> poll_loop e a cid False n trace
                  = poll_loop e a cid False (Suc n)
                      (trace @ es @ fst (print_summary s) @ [Sleep (interval a)]))
       \<and> ((\<forall>n. \<exists>es invs s.
              fetch_command_invocations (list_command_invocations e n) cid = (es, Return invs)
              \<and> summarize_status invs = Inr s
              \<and> \<not> (getitem s ''InProgress'' = Inr 0 \<and> getitem s ''Cancelling'' = Inr 0
                    \<and> getitem s ''Received'' = Inr 0))
            \<longrightarrow> (\<forall>trace. poll_loop e a cid False 0 trace = None))
       \<and> (argv_interval e = None \<longrightarrow> interval (parse_arguments e) = 15)"
proof (intro conjI allI impI)
  fix n trace es invs s
  assume h: "fetch_command_invocations (list_command_invocations e n) cid = (es, Return invs)"
    "summarize_status invs = Inr s"
    "\<not> (getitem s ''InProgress'' = Inr 0 \<and> getitem s ''Cancelling'' = Inr 0
        \<and> getitem s ''Received'' = Inr 0)"
  show once: "poll_once e a cid n
      = (es @ fst (print_summary s) @ [Sleep (interval a)], Return False)"
    by (rule poll_once_busy [OF h assms])
  show "poll_loop e a cid False n trace
      = poll_loop e a cid False (Suc n)
          (trace @ es @ fst (print_summary s) @ [Sleep (interval a)])"
    by (subst poll_loop.simps) (simp add: once)
next
  fix trace
  assume all: "\<forall>n. \<exists>es invs s.
      fetch_command_invocations (list_command_invocations e n) cid = (es, Return invs)
      \<and> summarize_status invs = Inr s
      \<and> \<not> (getitem s ''InProgress'' = Inr 0 \<and> getitem s ''Cancelling'' = Inr 0
            \<and> getitem s ''Received'' = Inr 0)"
  show "poll_loop e a cid False 0 trace = None"
  proof (rule poll_loop_never_returns)
    fix m :: nat
    from all obtain es invs s where
      "fetch_command_invocations (list_command_invocations e m) cid = (es, Return invs)"
      "summarize_status invs = Inr s"
      "\<not> (getitem s ''InProgress'' = Inr 0 \<and> getitem s ''Cancelling'' = Inr 0
          \<and> getitem s ''Received'' = Inr 0)"
      by blast
    from poll_once_busy [OF this assms]
    show "\<exists>es. poll_once e a cid m = (es, Return False)" by blast
  qed
next
  assume "argv_interval e = None"
  then show "interval (parse_arguments e) = 15" by (simp add: parse_arguments_def)
qed

theorem keeps_polling_while_not_complete_witness:
  "snd (poll_once
          (example_env None [] (Inl JSONDecodeError) (\<lambda>n. reply [''InProgress'']))
          (parse_arguments
             (example_env None [] (Inl JSONDecodeError) (\<lambda>n. reply [''InProgress''])))
          (PyStr ''abc-123'') 0)
     = Return False
   \<and> poll_loop
        (example_env None [] (Inl JSONDecodeError) (\<lambda>n. reply [''InProgress'']))
        (parse_arguments
           (example_env None [] (Inl JSONDecodeError) (\<lambda>n. reply [''InProgress''])))
        (PyStr ''abc-123'') False 0 []
     = None
   \<and> interval
        (parse_arguments
           (example_env None [] (Inl JSONDecodeError) (\<lambda>n. reply [''InProgress''])))
     = 15"
proof -
  let ?e = "example_env None [] (Inl JSONDecodeError) (\<lambda>n. reply [''InProgress''])"
  let ?a = "parse_arguments ?e"
  let ?cid = "PyStr ''abc-123''"
  let ?invs = "[\<lparr>Status = Some ''InProgress''\<rparr>]"
  let ?s = "table (occurrences ?invs)"
  have range: "0 \<le> interval ?a" "interval ?a \<le> sleep_max ?e"
    by (simp_all add: parse_arguments_def example_env_def)
  have f: "fetch_command_invocations (list_command_invocations ?e n) ?cid
      = ([ListCommandInvocations ?cid True], Return ?invs)" for n
    using fetch_example [of None "[]" "Inl JSONDecodeError" "[''InProgress'']" n ?cid]
    by simp
  have s: "summarize_status ?invs = Inr ?s"
    by (rule summarize_status_table)
  have "occurrences ?invs ''InProgress'' = 1"
    by (simp add: occurrences_def bucket_def categories_def named_categories_def)
  then have busy: "\<not> (getitem ?s ''InProgress'' = Inr 0 \<and> getitem ?s ''Cancelling'' = Inr 0
      \<and> getitem ?s ''Received'' = Inr 0)"
    by (simp add: getitem_table key_in_categories)
  note claim = keeps_polling_while_not_complete [OF range, where cid = ?cid]
  from claim f [of 0] s busy
  have "poll_once ?e ?a ?cid 0
      = ([ListCommandInvocations ?cid True] @ fst (print_summary ?s) @ [Sleep (interval ?a)],
         Return False)"
    by blast
  then have once: "snd (poll_once ?e ?a ?cid 0) = Return False" by simp
  from f s busy have "\<forall>n. \<exists>es invs s.
      fetch_command_invocations (list_command_invocations ?e n) ?cid = (es, Return invs)
      \<and> summarize_status invs = Inr s
      \<and> \<not> (getitem s ''InProgress'' = Inr 0 \<and> getitem s ''Cancelling'' = Inr 0
            \<and> getitem s ''Received'' = Inr 0)"
    by blast
  with claim have forever: "poll_loop ?e ?a ?cid False 0 [] = None" by blast
  have "argv_interval ?e = None" by (simp add: example_env_def)
  with claim have "interval ?a = 15" by blast
  with once forever show ?thesis by simp
qed

text \<open>
  C6 as it is written, for every configured interval, fails for a negative one: with
  \<^verbatim>\<open>--interval -1\<close> and a summary of one record in progress, \<^verbatim>\<open>time.sleep\<close> raises
  \<^verbatim>\<open>ValueError\<close> in the first pass, and the process ends with status 1 without having
  slept.
\<close>

theorem negative_interval_stops_polling:
  "snd (poll_once
          (example_env (Some (- 1)) [] (Inl JSONDecodeError) (\<lambda>n. reply [''InProgress'']))
          (parse_arguments
             (example_env (Some (- 1)) [] (Inl JSONDecodeError) (\<lambda>n. reply [''InProgress''])))
          (PyStr ''abc-123'') 0)
     = Raise ValueError
   \<and> map_option (snd \<circ> terminate)
        (poll_loop
           (example_env (Some (- 1)) [] (Inl JSONDecodeError) (\<lambda>n. reply [''InProgress'']))
           (parse_arguments
              (example_env (Some (- 1)) [] (Inl JSONDecodeError) (\<lambda>n. reply [''InProgress''])))
           (PyStr ''abc-123'') False 0 [])
     = Some 1"
proof -
  let ?e = "example_env (Some (- 1)) [] (Inl JSONDecodeError) (\<lambda>n. reply [''InProgress''])"
  let ?a = "parse_arguments ?e"
  let ?cid = "PyStr ''abc-123''"
  have f: "fetch_command_invocations (list_command_invocations ?e 0) ?cid
      = ([ListCommandInvocations ?cid True], Return [\<lparr>Status = Some ''InProgress''\<rparr>])"
    using fetch_example [of "Some (- 1)" "[]" "Inl JSONDecodeError" "[''InProgress'']" 0 ?cid]
    by simp
  have o: "occurrences [\<lparr>Status = Some ''InProgress''\<rparr>] ''InProgress'' = 1"
    by (simp add: occurrences_def bucket_def categories_def named_categories_def)
  have p: "snd (poll_once ?e ?a ?cid 0) = Raise ValueError"
    by (subst poll_once_fetched [OF f])
      (simp add: Let_def o time_sleep_def parse_arguments_def example_env_def)
  then obtain es where "poll_once ?e ?a ?cid 0 = (es, Raise ValueError)"
    by (metis prod.collapse)
  then have "poll_loop ?e ?a ?cid False 0 [] = Some ([] @ es, Raise ValueError)"
    by (subst poll_loop.simps) simp
  then have "map_option (snd \<circ> terminate) (poll_loop ?e ?a ?cid False 0 []) = Some 1"
    by (simp add: terminate_def)
  with p show ?thesis by simp
qed

text \<open>
  C9. When the fetch of a pass returns no record at all, the summary is all zero, the
  process prints it, prints the success notice and ends with status 0 in that same
  pass.
\<close>

theorem empty_fetch_succeeds:
  assumes "fetch_command_invocations (list_command_invocations e n) cid = (es, Return [])"
  shows "map_option terminate (poll_loop e a cid False n trace)
       = Some (trace @ es @
               [Stdout ''Status Summary:'',
                Stdout ''  Total Instances:    0'',
                Stdout ''  Success:            0'',
                Stdout ''  Failed:             0'',
                Stdout ''  In Progress:        0'',
                Stdout ''  Cancelled:          0'',
                Stdout ''  Timed Out:          0'',
                Stdout ''  Cancelling:         0'',
                Stdout ''  Received:           0'',
                Stdout ''  Other:              0'',
                Stdout ''----------------------------------------'',
                Stdout ''All invocations succeeded.''], 0)"
proof -
  have t: "total_instances (table (occurrences [])) = 0"
    using total_occurrences [of "[]"] by (simp add: total_table)
  have "poll_once e a cid n
      = (es @ fst (print_summary (table (occurrences [])))
            @ [Stdout ''All invocations succeeded.''], Exit 0)"
    by (simp add: poll_once_fetched [OF assms] Let_def occurrences_Nil)
  then show ?thesis
    by (subst poll_loop.simps)
      (simp add: terminate_def print_summary_table t occurrences_Nil str_int_0)
qed

theorem empty_fetch_succeeds_witness:
  "map_option terminate
     (poll_loop (example_env None [] (Inl JSONDecodeError) (\<lambda>n. reply []))
        (parse_arguments (example_env None [] (Inl JSONDecodeError) (\<lambda>n. reply [])))
        (PyStr ''abc-123'') False 0 [])
   = Some ([ListCommandInvocations (PyStr ''abc-123'') True,
            Stdout ''Status Summary:'',
            Stdout ''  Total Instances:    0'',
            Stdout ''  Success:            0'',
            Stdout ''  Failed:             0'',
            Stdout ''  In Progress:        0'',
            Stdout ''  Cancelled:          0'',
            Stdout ''  Timed Out:          0'',
            Stdout ''  Cancelling:         0'',
            Stdout ''  Received:           0'',
            Stdout ''  Other:              0'',
            Stdout ''----------------------------------------'',
            Stdout ''All invocations succeeded.''], 0)"
proof -
  let ?e = "example_env None [] (Inl JSONDecodeError) (\<lambda>n. reply [])"
  have f: "fetch_command_invocations (list_command_invocations ?e 0) (PyStr ''abc-123'')
      = ([ListCommandInvocations (PyStr ''abc-123'') True], Return [])"
    using fetch_example [of None "[]" "Inl JSONDecodeError" "[]" 0 "PyStr ''abc-123''"]
    by simp
  show ?thesis
    using empty_fetch_succeeds [OF f, of "parse_arguments ?e" "[]"] by simp
qed

section \<open>The input parser on a text of the wrong shape\<close>

text \<open>
  C3 says that every text without a non-empty \<^verbatim>\<open>Command.CommandId\<close> gets the one-line
  diagnostic. For the text \<^verbatim>\<open>[]\<close>, which \<^verbatim>\<open>json.loads\<close> reads as the empty list,
  \<^verbatim>\<open>data["Command"]\<close> raises \<^verbatim>\<open>TypeError\<close>, which the \<^verbatim>\<open>except\<close> clause does not
  name: the diagnostic is not printed, and the process ends with the traceback and
  status 1, before the session is created and with no call to the service.
\<close>

theorem wrong_shape_input_ends_in_traceback:
  "run_script (example_env None ''[]'' (Inr (PyList [])) (\<lambda>n. reply []))
     = Some ([Traceback TypeError], 1)"
  by (simp add: run_script_def main_def startup_def extract_command_id_def
      invalid_input_def bind_io_def terminate_def example_env_def Let_def)

text \<open>
  What the parser does do without a usable id: a text that does not parse, a missing
  key in a dictionary and an empty value all get the diagnostic and exit status 1.
\<close>

lemma diagnostic_cases:
  "json_loads_fn text = Inl JSONDecodeError \<or>
   (\<exists>d. json_loads_fn text = Inr (PyDict d) \<and>
        (map_of d ''Command'' = None \<or>
         (\<exists>c. map_of d ''Command'' = Some (PyDict c) \<and>
              (map_of c ''CommandId'' = None \<or>
               (\<exists>v. map_of c ''CommandId'' = Some v \<and> \<not> truthy v))))) \<Longrightarrow>
   extract_command_id json_loads_fn text
     = ([Stderr ''Error: Invalid input JSON. Ensure it contains 'Command.CommandId'.''],
        Exit 1)"
  by (auto simp: extract_command_id_def invalid_input_def)

text \<open>
  Whenever the parser does not return an id, the process ends with status 1 and has
  made no call to the service.
\<close>

lemma no_command_id_no_call:
  assumes "\<forall>v. snd (extract_command_id (json_loads e) (stdin_text e)) \<noteq> Return v"
  shows "\<exists>es. run_script e = Some (es, 1)
             \<and> (\<forall>c d. ListCommandInvocations c d \<notin> set es)"
proof (cases "extract_command_id (json_loads e) (stdin_text e)")
  case (Pair es r)
  have events: "set es \<subseteq> {Stderr ''Error: Invalid input JSON. Ensure it contains 'Command.CommandId'.''}"
    and exits: "r = Exit 1 \<or> (\<exists>x. r = Raise x)"
    using Pair assms
    by (auto simp: extract_command_id_def invalid_input_def
        split: sum.splits pyexn.splits if_splits)
  from exits show ?thesis
  proof
    assume "r = Exit 1"
    with Pair events show ?thesis
      by (auto simp: run_script_def main_def startup_def bind_io_def terminate_def Let_def)
  next
    assume "\<exists>x. r = Raise x"
    with Pair events show ?thesis
      by (auto simp: run_script_def main_def startup_def bind_io_def terminate_def Let_def)
  qed
qed

section \<open>The end-to-end scenarios of the specification\<close>

text \<open>
  The model run on the first scenario: the first pass prints a total of 3 with 2
  successes and 1 in progress and sleeps for 15, the second pass prints 3 successes and
  the success notice, and the process ends with status 0.
\<close>

lemma scenario_startup:
  "startup scenario_env
     = ([Stdout ''Monitoring AWS SSM Command ID: abc-123'',
         Stdout ''Polling interval: 15 seconds'',
         Stdout ''----------------------------------------'',
         OpenSession None,
         OpenClient None],
        Return (\<lparr>interval = 15, profile = None, region = None\<rparr>, PyStr ''abc-123''))"
  by code_simp

lemma scenario_first_pass:
  "poll_once scenario_env \<lparr>interval = 15, profile = None, region = None\<rparr>
     (PyStr ''abc-123'') 0
     = ([ListCommandInvocations (PyStr ''abc-123'') True,
         Stdout ''Status Summary:'',
         Stdout ''  Total Instances:    3'',
         Stdout ''  Success:            2'',
         Stdout ''  Failed:             0'',
         Stdout ''  In Progress:        1'',
         Stdout ''  Cancelled:          0'',
         Stdout ''  Timed Out:          0'',
         Stdout ''  Cancelling:         0'',
         Stdout ''  Received:           0'',
         Stdout ''  Other:              0'',
         Stdout ''----------------------------------------'',
         Sleep 15], Return False)"
  by code_simp

lemma scenario_second_pass:
  "poll_once scenario_env \<lparr>interval = 15, profile = None, region = None\<rparr>
     (PyStr ''abc-123'') (Suc 0)
     = ([ListCommandInvocations (PyStr ''abc-123'') True,
         Stdout ''Status Summary:'',
         Stdout ''  Total Instances:    3'',
         Stdout ''  Success:            3'',
         Stdout ''  Failed:             0'',
         Stdout ''  In Progress:        0'',
         Stdout ''  Cancelled:          0'',
         Stdout ''  Timed Out:          0'',
         Stdout ''  Cancelling:         0'',
         Stdout ''  Received:           0'',
         Stdout ''  Other:              0'',
         Stdout ''----------------------------------------'',
         Stdout ''All invocations succeeded.''], Exit 0)"
  by code_simp

lemma scenario_run:
  "run_script scenario_env
     = Some ([Stdout ''Monitoring AWS SSM Command ID: abc-123'',
              Stdout ''Polling interval: 15 seconds'',
              Stdout ''----------------------------------------'',
              OpenSession None,
              OpenClient None,
              ListCommandInvocations (PyStr ''abc-123'') True,
              Stdout ''Status Summary:'',
              Stdout ''  Total Instances:    3'',
              Stdout ''  Success:            2'',
              Stdout ''  Failed:             0'',
              Stdout ''  In Progress:        1'',
              Stdout ''  Cancelled:          0'',
              Stdout ''  Timed Out:          0'',
              Stdout ''  Cancelling:         0'',
              Stdout ''  Received:           0'',
              Stdout ''  Other:              0'',
              Stdout ''----------------------------------------'',
              Sleep 15,
              ListCommandInvocations (PyStr ''abc-123'') True,
              Stdout ''Status Summary:'',
              Stdout ''  Total Instances:    3'',
              Stdout ''  Success:            3'',
              Stdout ''  Failed:             0'',
              Stdout ''  In Progress:        0'',
              Stdout ''  Cancelled:          0'',
              Stdout ''  Timed Out:          0'',
              Stdout ''  Cancelling:         0'',
              Stdout ''  Received:           0'',
              Stdout ''  Other:              0'',
              Stdout ''----------------------------------------'',
              Stdout ''All invocations succeeded.''], 0)"
  unfolding run_script_def main_def scenario_startup
  apply (subst poll_loop.simps)
  apply (simp only: scenario_first_pass if_False prod.case outcome.case)
  apply (subst poll_loop.simps)
  apply (simp add: scenario_second_pass terminate_def)
  done

text \<open>
  The second scenario: an input whose \<^verbatim>\<open>CommandId\<close> is the empty string gets the
  diagnostic on the error stream and exit status 1, and nothing else happens.
\<close>

lemma scenario_empty_command_id:
  "run_script
     (example_env None ''{...}''
        (Inr (PyDict [(''Command'', PyDict [(''CommandId'', PyStr [])])])) (\<lambda>n. reply []))
   = Some ([Stderr ''Error: Invalid input JSON. Ensure it contains 'Command.CommandId'.''], 1)"
  by (simp add: run_script_def main_def startup_def extract_command_id_def
      invalid_input_def bind_io_def terminate_def example_env_def Let_def)

end
